theory Spec2Isabelle
  imports Complex_Main
begin

section \<open>Values and exceptions\<close>

text \<open>
  The Python exceptions that the modelled code can raise. A function that can raise
  returns \<open>exn + 'a\<close>, with \<open>Inl\<close> for the exception.
\<close>

datatype exn = IndexError | AttributeError | ValueError | FitFailed | SamplerError
  | NotImplementedError

text \<open>
  A numpy float that may be NaN. Arithmetic is exact (real numbers): rounding and the
  infinities are not modelled. Python floats of the coefficient lists are \<open>real\<close>.
\<close>

datatype np_float = NaN | Num real

definition isnan :: "np_float \<Rightarrow> bool" where
  "isnan v = (case v of NaN \<Rightarrow> True | Num r \<Rightarrow> False)"

text \<open>\<open>y > 0\<close> on one entry: a comparison with NaN is false.\<close>

definition gt0 :: "np_float \<Rightarrow> bool" where
  "gt0 v = (case v of NaN \<Rightarrow> False | Num r \<Rightarrow> 0 < r)"

text \<open>\<open>np.sqrt\<close>: NaN on a negative argument (numpy warns, it does not raise).\<close>

definition np_sqrt :: "real \<Rightarrow> np_float" where
  "np_sqrt r = (if r < 0 then NaN else Num (sqrt r))"

text \<open>\<open>np.zeros((r, c))\<close>, a matrix as the list of its rows.\<close>

definition np_zeros :: "int \<Rightarrow> int \<Rightarrow> real list list" where
  "np_zeros r c = replicate (nat r) (replicate (nat c) 0)"

section \<open>The class Polynomial\<close>

text \<open>
  The attributes \<open>_coefficients\<close>, \<open>_degree\<close>, \<open>_i_plus_1\<close>, \<open>_cov_matrix\<close>
  and \<open>_integral_polynomial\<close>. The last one is absent (\<open>None\<close>) on an object built
  with \<open>is_integral=True\<close>: the constructor never assigns it there. The floats of
  \<open>_i_plus_1\<close> hold the integers \<open>1, ..., degree + 1\<close> of \<open>range(1, degree + 2)\<close>;
  they are kept as natural numbers.
\<close>

datatype Polynomial = Polynomial
  (coefficients: "real list")
  (degree: int)
  (i_plus_1: "nat list")
  (cov_matrix: "real list list")
  (integral_polynomial: "Polynomial option")

text \<open>
  The list \<open>[0] + [c[i - 1] / float(i) for i in range(1, degree + 1 + 1)]\<close>. In the
  constructor \<open>degree = len(c) - 1\<close>, so every index is in range.
\<close>

definition integral_coeff :: "real list \<Rightarrow> int \<Rightarrow> real list" where
  "integral_coeff c deg = 0 # map (\<lambda>i. c ! nat (i - 1) / real_of_int i) [1..deg + 1]"

text \<open>
  \<open>Polynomial.__init__\<close>. The constructor calls itself once, with
  \<open>is_integral=True\<close>, when \<open>is_integral\<close> is false.
\<close>

function Polynomial_init :: "real list \<Rightarrow> bool \<Rightarrow> Polynomial" where
  "Polynomial_init cs is_integral =
     (let deg = int (length cs) - 1;
          ipo = map nat [1..deg + 1];
          cov = np_zeros (deg + 1) (deg + 1)
      in if \<not> is_integral
         then Polynomial cs deg ipo cov (Some (Polynomial_init (integral_coeff cs deg) True))
         else Polynomial cs deg ipo cov None)"
  by pat_completeness auto
termination
  by (relation "measure (\<lambda>(cs, is_integral). if is_integral then 0 else 1)") auto

declare Polynomial_init.simps [simp del]

text \<open>\<open>Polynomial.__call__\<close>: the loop over \<open>self._coefficients[::-1]\<close>.\<close>

definition call :: "Polynomial \<Rightarrow> real \<Rightarrow> real" where
  "call p x = foldl (\<lambda>result coefficient. result * x + coefficient) 0 (rev (coefficients p))"

text \<open>\<open>set_covariace_matrix\<close> (the source's spelling) and \<open>from_previous_fit\<close>.\<close>

definition set_covariace_matrix :: "Polynomial \<Rightarrow> real list list \<Rightarrow> Polynomial" where
  "set_covariace_matrix p matrix =
     Polynomial (coefficients p) (degree p) (i_plus_1 p) matrix (integral_polynomial p)"

definition from_previous_fit :: "real list \<Rightarrow> real list list \<Rightarrow> Polynomial" where
  "from_previous_fit cs covariance = set_covariace_matrix (Polynomial_init cs False) covariance"

text \<open>
  \<open>Polynomial.integral\<close>. Reading \<open>self._integral_polynomial\<close> on an object that has
  none raises AttributeError.
\<close>

definition integral :: "Polynomial \<Rightarrow> real \<Rightarrow> real \<Rightarrow> exn + real" where
  "integral p xmin xmax =
     (case integral_polynomial p of
        None \<Rightarrow> Inl AttributeError
      | Some q \<Rightarrow> Inr (call q xmax - call q xmin))"

text \<open>
  \<open>Polynomial._eval_basis\<close>: elementwise
  \<open>(1.0 / self._i_plus_1) * np.power(x, self._i_plus_1)\<close>. The exponents are positive
  integers, so \<open>np.power\<close> is the integer power, also for a negative or zero
  \<open>x\<close>.
\<close>

definition eval_basis :: "Polynomial \<Rightarrow> real \<Rightarrow> real list" where
  "eval_basis p x = map (\<lambda>k. (1 / real k) * x ^ k) (i_plus_1 p)"

text \<open>
  \<open>ndarray.dot\<close> for a vector with a matrix (the list of its rows) and for two
  vectors. numpy raises ValueError when the shapes are not aligned.
\<close>

definition ncols :: "real list list \<Rightarrow> nat" where
  "ncols M = (case M of [] \<Rightarrow> 0 | row # rows \<Rightarrow> length row)"

definition is_matrix :: "real list list \<Rightarrow> bool" where
  "is_matrix M = list_all (\<lambda>row. length row = ncols M) M"

definition dot_vec_mat :: "real list \<Rightarrow> real list list \<Rightarrow> exn + real list" where
  "dot_vec_mat c M =
     (if is_matrix M \<and> length M = length c
      then Inr (map (\<lambda>j. sum_list (map2 (\<lambda>ci row. ci * row ! j) c M)) [0..<ncols M])
      else Inl ValueError)"

definition dot_vec_vec :: "real list \<Rightarrow> real list \<Rightarrow> exn + real" where
  "dot_vec_vec a b =
     (if length a = length b then Inr (sum_list (map2 (*) a b)) else Inl ValueError)"

text \<open>\<open>Polynomial.integral_error\<close>.\<close>

definition integral_error :: "Polynomial \<Rightarrow> real \<Rightarrow> real \<Rightarrow> exn + np_float" where
  "integral_error p xmin xmax =
     (let c = map2 (-) (eval_basis p xmax) (eval_basis p xmin)
      in case dot_vec_mat c (cov_matrix p) of
           Inl e \<Rightarrow> Inl e
         | Inr tmp \<Rightarrow>
             (case dot_vec_vec tmp c of
                Inl e \<Rightarrow> Inl e
              | Inr err2 \<Rightarrow> Inr (np_sqrt err2)))"

text \<open>
  Python indexing \<open>xs[i]\<close>: a negative index counts from the end, an index out of
  range raises IndexError.
\<close>

definition py_getitem :: "'a list \<Rightarrow> int \<Rightarrow> exn + 'a" where
  "py_getitem xs i =
     (let n = int (length xs); j = (if i < 0 then n + i else i)
      in if 0 \<le> j \<and> j < n then Inr (xs ! nat j) else Inl IndexError)"

text \<open>A list comprehension whose element expression can raise: the first exception ends it.\<close>

fun list_comprehension :: "('a \<Rightarrow> exn + 'b) \<Rightarrow> 'a list \<Rightarrow> exn + 'b list" where
  "list_comprehension f [] = Inr []"
| "list_comprehension f (x # xs) =
     (case f x of
        Inl e \<Rightarrow> Inl e
      | Inr v \<Rightarrow> (case list_comprehension f xs of Inl e \<Rightarrow> Inl e | Inr vs \<Rightarrow> Inr (v # vs)))"

text \<open>
  \<open>Polynomial.__set_coefficient\<close>, the setter of the property \<open>coefficients\<close>.
  It assigns \<open>self._coefficients\<close> first, then builds the list
  \<open>[self._coefficients[i - 1] / float(i) for i in range(1, self._degree + 1 + 1)]\<close>
  with the \<open>_degree\<close> the object already has, and assigns
  \<open>self._integral_polynomial\<close> last. The object after the call is returned also
  when the comprehension raises.
\<close>

definition set_coefficient :: "Polynomial \<Rightarrow> real list \<Rightarrow> (exn + unit) \<times> Polynomial" where
  "set_coefficient p val =
     (let p1 = Polynomial val (degree p) (i_plus_1 p) (cov_matrix p) (integral_polynomial p)
      in case list_comprehension
                (\<lambda>i. case py_getitem val (i - 1) of
                        Inl e \<Rightarrow> Inl e
                      | Inr v \<Rightarrow> Inr (v / real_of_int i))
                [1..degree p1 + 1] of
           Inl e \<Rightarrow> (Inl e, p1)
         | Inr rest \<Rightarrow>
             (Inr (), Polynomial val (degree p1) (i_plus_1 p1) (cov_matrix p1)
                        (Some (Polynomial_init (0 # rest) True))))"

section \<open>Reference definitions for the class Polynomial\<close>

text \<open>Direct Horner evaluation of a coefficient list, lowest power first.\<close>

fun horner :: "real list \<Rightarrow> real \<Rightarrow> real" where
  "horner [] x = 0"
| "horner (c # cs) x = c + x * horner cs x"

text \<open>
  The antiderivative of the specification: constant term 0 and coefficient
  \<open>c[i-1] / i\<close> at the power \<open>i\<close>, for \<open>1 \<le> i \<le> len(c)\<close>.
\<close>

definition antiderivative :: "real list \<Rightarrow> real \<Rightarrow> real" where
  "antiderivative c x = (\<Sum>i = 1..length c. c ! (i - 1) / real i * x ^ i)"

text \<open>
  The formula of the specification for \<open>integral_error\<close>: the basis vector
  \<open>c_i = (xmax^(i+1) - xmin^(i+1)) / (i+1)\<close> and the quadratic form
  \<open>c\<^sup>T \<Sigma> c\<close> as a double sum.
\<close>

definition basis_c :: "real \<Rightarrow> real \<Rightarrow> nat \<Rightarrow> real" where
  "basis_c xmin xmax i = (xmax ^ (i + 1) - xmin ^ (i + 1)) / real (i + 1)"

definition quadratic_form :: "nat \<Rightarrow> (nat \<Rightarrow> real) \<Rightarrow> real list list \<Rightarrow> real" where
  "quadratic_form n c S = (\<Sum>i<n. \<Sum>j<n. c i * S ! i ! j * c j)"

text \<open>How many antiderivative objects hang below a polynomial.\<close>

fun nesting_depth :: "Polynomial \<Rightarrow> nat" where
  "nesting_depth (Polynomial cs d ipo cov None) = 0"
| "nesting_depth (Polynomial cs d ipo cov (Some q)) = Suc (nesting_depth q)"

section \<open>The collaborators of the fit drivers\<close>

text \<open>
  A one-dimensional numpy array of floats, and boolean-mask indexing \<open>a[mask]\<close>:
  numpy raises IndexError when the mask and the array differ in length.
\<close>

type_synonym array = "np_float list"

definition mask_index :: "'a list \<Rightarrow> bool list \<Rightarrow> exn + 'a list" where
  "mask_index a m =
     (if length m = length a then Inr (map fst (filter snd (zip a m))) else Inl IndexError)"

text \<open>
  \<open>_grade_model_lookup = (Line, Line, Quadratic, Cubic, Quadratic)\<close>. The shapes are
  those of astromodels: Line has the parameters a and b, Quadratic a, b and c, Cubic a,
  b, c and d, all free when the shape is created. Their initial values play no role:
  the drivers overwrite the value of every free parameter.
\<close>

datatype shape = Line | Quadratic | Cubic

definition grade_model_lookup :: "shape list" where
  "grade_model_lookup = [Line, Line, Quadratic, Cubic, Quadratic]"

datatype prior = Log_normal real real | Gaussian real real

record parameter =
  par_name :: string
  par_value :: real
  par_fix :: bool
  par_bounds :: "real option \<times> real option"
  par_prior :: "prior option"

definition new_parameter :: "string \<Rightarrow> parameter" where
  "new_parameter n =
     \<lparr>par_name = n, par_value = 0, par_fix = False, par_bounds = (None, None), par_prior = None\<rparr>"

definition shape_parameters :: "shape \<Rightarrow> parameter list" where
  "shape_parameters s =
     (case s of
        Line \<Rightarrow> map new_parameter [''a'', ''b'']
      | Quadratic \<Rightarrow> map new_parameter [''a'', ''b'', ''c'']
      | Cubic \<Rightarrow> map new_parameter [''a'', ''b'', ''c'', ''d''])"

text \<open>\<open>model.free_parameters\<close>: the parameters that are not fixed, in order.\<close>

definition free_parameters :: "parameter list \<Rightarrow> parameter list" where
  "free_parameters model = filter (\<lambda>v. \<not> par_fix v) model"

text \<open>
  The loop \<open>for i, (k, v) in enumerate(model.free_parameters.items())\<close> with a body
  that updates \<open>v\<close>.
\<close>

fun enumerate_free ::
  "(nat \<Rightarrow> parameter \<Rightarrow> parameter) \<Rightarrow> nat \<Rightarrow> parameter list \<Rightarrow> parameter list" where
  "enumerate_free f i [] = []"
| "enumerate_free f i (v # vs) =
     (if par_fix v then v # enumerate_free f i vs
      else f i v # enumerate_free f (Suc i) vs)"

text \<open>\<open>shape.b = 0; shape.b.fix = True\<close>.\<close>

definition fix_b :: "parameter list \<Rightarrow> parameter list" where
  "fix_b model =
     map (\<lambda>v. if par_name v = ''b'' then v\<lparr>par_value := 0, par_fix := True\<rparr> else v) model"

text \<open>An optimizer or a sampler writes its values into the free parameters of the model.\<close>

fun set_free_values :: "real list \<Rightarrow> parameter list \<Rightarrow> parameter list" where
  "set_free_values xs [] = []"
| "set_free_values xs (v # vs) =
     (if par_fix v then v # set_free_values xs vs
      else (case xs of
              [] \<Rightarrow> v # set_free_values [] vs
            | x # xs' \<Rightarrow> v\<lparr>par_value := x\<rparr> # set_free_values xs' vs))"

text \<open>
  One run of the optimizer behind \<open>jl.fit\<close>: it converges to best-fit values with a
  covariance matrix, or it raises and leaves some values in the free parameters. One
  run of the sampler behind \<open>ba.sample\<close>, \<open>ba.restore_median_fit\<close> and
  \<open>ba.results.estimate_covariance_matrix\<close>: the posterior median with the estimated
  covariance, or an exception. Both are functions of the model and the data they are
  handed; the random state of the sampler is not modelled.
\<close>

datatype fit_outcome = Converged "real list" "real list list" | Raised exn "real list"

datatype sample_outcome = Sampled "real list" "real list list" | SamplerRaised exn

text \<open>
  Modelled from the spec: the class \<open>JointLikelihood\<close> of
  \<open>threeML.classicMLE.joint_likelihood\<close>, which is not among the sources. The optimizer
  returns a point estimate with its covariance, or fails with an optimization error;
  \<open>jl.results\<close> is what the last completed fit returned, and there is none (Python's
  \<open>None\<close>) before a fit has completed. \<open>fit_calls\<close> counts the calls of
  \<open>jl.fit\<close>; it is not an attribute of the class.
\<close>

record 'd JointLikelihood =
  jl_model :: "parameter list"
  jl_data :: 'd
  jl_results :: "real list list option"
  fit_calls :: nat

definition JointLikelihood_init :: "parameter list \<Rightarrow> 'd \<Rightarrow> 'd JointLikelihood" where
  "JointLikelihood_init model data =
     \<lparr>jl_model = model, jl_data = data, jl_results = None, fit_calls = 0\<rparr>"

definition jl_fit ::
  "(parameter list \<Rightarrow> 'd \<Rightarrow> fit_outcome) \<Rightarrow> 'd JointLikelihood
     \<Rightarrow> (exn + unit) \<times> 'd JointLikelihood" where
  "jl_fit minimizer jl =
     (case minimizer (jl_model jl) (jl_data jl) of
        Converged best cov \<Rightarrow>
          (Inr (), jl\<lparr>jl_model := set_free_values best (jl_model jl),
                      jl_results := Some cov,
                      fit_calls := Suc (fit_calls jl)\<rparr>)
      | Raised e left \<Rightarrow>
          (Inl e, jl\<lparr>jl_model := set_free_values left (jl_model jl),
                     fit_calls := Suc (fit_calls jl)\<rparr>))"

section \<open>The binned driver polyfit\<close>

text \<open>
  The statement \<open>try: jl.fit(quiet=True)\<close> \<open>except: try: jl.fit(quiet=True)\<close>
  \<open>except: pass\<close> of \<open>polyfit\<close> (lines 247 to 261): the state of \<open>jl\<close> after it.
\<close>

definition fit_retry_accept ::
  "(parameter list \<Rightarrow> 'd \<Rightarrow> fit_outcome) \<Rightarrow> 'd JointLikelihood \<Rightarrow> 'd JointLikelihood" where
  "fit_retry_accept minimizer jl =
     (case jl_fit minimizer jl of
        (Inr u, jl1) \<Rightarrow> jl1
      | (Inl e1, jl1) \<Rightarrow>
          (case jl_fit minimizer jl1 of
             (Inr u, jl2) \<Rightarrow> jl2
           | (Inl e2, jl2) \<Rightarrow> jl2))"

text \<open>
  The end of the MLE branch of both drivers (lines 263 to 271 and 409 to 417): the
  coefficients are the values of the free parameters, the covariance is
  \<open>jl.results.covariance_matrix\<close>, which raises AttributeError when \<open>jl.results\<close>
  is \<open>None\<close>, and the likelihood is read last. The second component of the result
  is the number of optimizer or sampler runs that were started.
\<close>

definition mle_result ::
  "(parameter list \<Rightarrow> 'd \<Rightarrow> real) \<Rightarrow> 'd JointLikelihood
     \<Rightarrow> (exn + Polynomial \<times> real) \<times> nat" where
  "mle_result get_log_like jl =
     (let coeff = map par_value (free_parameters (jl_model jl));
          final_polynomial = Polynomial_init coeff False
      in case jl_results jl of
           None \<Rightarrow> (Inl AttributeError, fit_calls jl)
         | Some cov \<Rightarrow>
             (let min_log_likelihood = get_log_like (jl_model jl) (jl_data jl)
              in (Inr (set_covariace_matrix final_polynomial cov, - min_log_likelihood),
                  fit_calls jl)))"

text \<open>
  The end of the Bayesian branch of both drivers (lines 299 to 318 and 445 to 464). An
  exception of the sampler is not caught.
\<close>

definition bayes_result ::
  "(parameter list \<Rightarrow> 'd \<Rightarrow> sample_outcome) \<Rightarrow> (parameter list \<Rightarrow> 'd \<Rightarrow> real)
     \<Rightarrow> parameter list \<Rightarrow> 'd \<Rightarrow> (exn + Polynomial \<times> real) \<times> nat" where
  "bayes_result sampler get_log_like model data =
     (case sampler model data of
        SamplerRaised e \<Rightarrow> (Inl e, 1)
      | Sampled median cov \<Rightarrow>
          (let model' = set_free_values median model;
               coeff = map par_value (free_parameters model');
               final_polynomial = Polynomial_init coeff False;
               min_log_likelihood = get_log_like model' data
           in (Inr (set_covariace_matrix final_polynomial cov, - min_log_likelihood), 1)))"

text \<open>
  The data of \<open>XYLike("series", x=x, y=y, exposure=exposure, poisson_data=True)\<close>, and
  what \<open>polyfit\<close> calls outside this file: numpy's \<open>np.mean(y / exposure)\<close> and
  \<open>np.log\<close>, with their own results on a zero exposure or a non-positive argument,
  the minuit optimizer, the emcee sampler and \<open>xy.get_log_like()\<close>.
\<close>

record XYLike =
  xy_x :: array
  xy_y :: array
  xy_exposure :: array

record xy_collab =
  np_mean_ratio :: "array \<Rightarrow> array \<Rightarrow> real"
  np_log :: "real \<Rightarrow> real"
  minuit :: "parameter list \<Rightarrow> XYLike \<Rightarrow> fit_outcome"
  emcee :: "parameter list \<Rightarrow> XYLike \<Rightarrow> sample_outcome"
  get_log_like :: "parameter list \<Rightarrow> XYLike \<Rightarrow> real"

text \<open>\<open>polyfit\<close> from line 191 on, after the NaN entries were dropped.\<close>

definition polyfit_masked ::
  "xy_collab \<Rightarrow> array \<Rightarrow> array \<Rightarrow> int \<Rightarrow> array \<Rightarrow> bool
     \<Rightarrow> (exn + Polynomial \<times> real) \<times> nat" where
  "polyfit_masked C x y grade exposure bayes =
     (let n_non_zero = length (filter gt0 y)
      in if n_non_zero = 0
         then (Inr (Polynomial_init (replicate (nat (grade + 1)) 0) False, 0), 0)
         else
      (case py_getitem grade_model_lookup grade of
           Inl e \<Rightarrow> (Inl e, 0)
         | Inr shape \<Rightarrow>
      (let model = shape_parameters shape;
           avg = np_mean_ratio C y exposure;
           xy = \<lparr>xy_x = x, xy_y = y, xy_exposure = exposure\<rparr>
       in if \<not> bayes
          then
            (let model1 = enumerate_free
                   (\<lambda>i v. if i = 0 then v\<lparr>par_bounds := (Some 0, None), par_value := avg\<rparr>
                           else v\<lparr>par_value := 0\<rparr>) 0 model;
                 model2 = (if grade = 0 then fix_b model1 else model1);
                 jl = JointLikelihood_init model2 xy
             in mle_result (get_log_like C) (fit_retry_accept (minuit C) jl))
          else
            (let model1 = enumerate_free
                   (\<lambda>i v. if i = 0
                           then v\<lparr>par_bounds := (Some 0, None),
                                  par_prior := Some (Log_normal (np_log C avg)
                                                       (max (np_log C (avg / 2)) 1)),
                                  par_value := 1\<rparr>
                           else v\<lparr>par_prior := Some (Gaussian 0 2), par_value := 1 / 100\<rparr>)
                   0 model;
                 model2 = (if grade = 0 then fix_b model1 else model1)
             in bayes_result (emcee C) (get_log_like C) model2 xy))))"

text \<open>
  \<open>polyfit(x, y, grade, exposure, bayes)\<close>: lines 185 to 189 drop the entries where
  \<open>y\<close> is NaN from \<open>y\<close>, \<open>x\<close> and \<open>exposure\<close>, in this order.
\<close>

definition polyfit ::
  "xy_collab \<Rightarrow> array \<Rightarrow> array \<Rightarrow> int \<Rightarrow> array \<Rightarrow> bool
     \<Rightarrow> (exn + Polynomial \<times> real) \<times> nat" where
  "polyfit C x y grade exposure bayes =
     (let nan_mask = map isnan y
      in case mask_index y (map Not nan_mask) of
           Inl e \<Rightarrow> (Inl e, 0)
         | Inr y1 \<Rightarrow>
             (case mask_index x (map Not nan_mask) of
                Inl e \<Rightarrow> (Inl e, 0)
              | Inr x1 \<Rightarrow>
                  (case mask_index exposure (map Not nan_mask) of
                     Inl e \<Rightarrow> (Inl e, 0)
                   | Inr exposure1 \<Rightarrow> polyfit_masked C x1 y1 grade exposure1 bayes)))"

text \<open>Removing the entry at one index from an array, as \<open>np.delete(a, i)\<close> does.\<close>

definition np_delete :: "'a list \<Rightarrow> nat \<Rightarrow> 'a list" where
  "np_delete a i = take i a @ drop (Suc i) a"

text \<open>
  Two sets of collaborators for concrete runs: an optimizer that raises FitFailed on
  every call and leaves the parameter values as they are, and one that converges on
  every call.
\<close>

definition failing_optimizer :: xy_collab where
  "failing_optimizer =
     \<lparr>np_mean_ratio = (\<lambda>y exposure. 1),
      np_log = (\<lambda>r. 0),
      minuit = (\<lambda>model xy. Raised FitFailed (map par_value (free_parameters model))),
      emcee = (\<lambda>model xy. SamplerRaised SamplerError),
      get_log_like = (\<lambda>model xy. 0)\<rparr>"

definition converging_optimizer :: xy_collab where
  "converging_optimizer =
     \<lparr>np_mean_ratio = (\<lambda>y exposure. 3),
      np_log = (\<lambda>r. 1),
      minuit = (\<lambda>model xy. Converged [3, 0] [[1, 0], [0, 1]]),
      emcee = (\<lambda>model xy. Sampled [3, 0] [[1, 0], [0, 1]]),
      get_log_like = (\<lambda>model xy. - 2)\<rparr>"

section \<open>The unbinned driver unbinned_polyfit\<close>

text \<open>
  \<open>EventObservation(events, exposure, t_start, t_stop)\<close>, and what
  \<open>unbinned_polyfit\<close> calls outside this file: \<open>np.log\<close>, \<open>np.logspace\<close>, the
  grid minimizer with its second, local minimization, the emcee sampler and
  \<open>xy.get_log_like()\<close> of the unbinned likelihood.
\<close>

record EventObservation =
  ev_events :: "real list"
  ev_exposure :: real
  ev_start :: real
  ev_stop :: real

record unbinned_collab =
  u_np_log :: "real \<Rightarrow> real"
  u_np_logspace :: "real \<Rightarrow> real \<Rightarrow> nat \<Rightarrow> real list"
  grid_minimizer :: "real list \<Rightarrow> parameter list \<Rightarrow> EventObservation \<Rightarrow> fit_outcome"
  u_emcee :: "parameter list \<Rightarrow> EventObservation \<Rightarrow> sample_outcome"
  u_get_log_like :: "parameter list \<Rightarrow> EventObservation \<Rightarrow> real"

text \<open>
  \<open>unbinned_polyfit(events, grade, t_start, t_stop, exposure, bayes)\<close>. When both
  calls of \<open>jl.fit\<close> raise, it returns the zero polynomial (line 407).
\<close>

definition unbinned_polyfit ::
  "unbinned_collab \<Rightarrow> real list \<Rightarrow> int \<Rightarrow> real \<Rightarrow> real \<Rightarrow> real \<Rightarrow> bool
     \<Rightarrow> (exn + Polynomial \<times> real) \<times> nat" where
  "unbinned_polyfit U events grade t_start t_stop exposure bayes =
     (if length events = 0
      then (Inr (Polynomial_init (replicate (nat (grade + 1)) 0) False, 0), 0)
      else
      (case py_getitem grade_model_lookup grade of
           Inl e \<Rightarrow> (Inl e, 0)
         | Inr shape \<Rightarrow>
      (let model = shape_parameters shape;
           observation = \<lparr>ev_events = events, ev_exposure = exposure,
                           ev_start = t_start, ev_stop = t_stop\<rparr>
       in if \<not> bayes
          then
            (let model1 = enumerate_free
                   (\<lambda>i v. if i = 0 then v\<lparr>par_bounds := (Some 0, None), par_value := 10\<rparr>
                           else v\<lparr>par_value := 0\<rparr>) 0 model;
                 model2 = (if grade = 0 then fix_b model1 else model1);
                 jl = JointLikelihood_init model2 observation;
                 my_grid = u_np_logspace U 0 3 3
             in case jl_fit (grid_minimizer U my_grid) jl of
                  (Inr u, jl1) \<Rightarrow> mle_result (u_get_log_like U) jl1
                | (Inl e1, jl1) \<Rightarrow>
                    (case jl_fit (grid_minimizer U my_grid) jl1 of
                       (Inr u, jl2) \<Rightarrow> mle_result (u_get_log_like U) jl2
                     | (Inl e2, jl2) \<Rightarrow>
                         (Inr (Polynomial_init (replicate (nat (grade + 1)) 0) False, 0),
                          fit_calls jl2)))
          else
            (let model1 = enumerate_free
                   (\<lambda>i v. if i = 0
                           then v\<lparr>par_bounds := (Some 0, None),
                                  par_prior := Some (Log_normal (u_np_log U 5) (u_np_log U 5)),
                                  par_value := 1\<rparr>
                           else v\<lparr>par_prior := Some (Gaussian 0 (1 / 2)), par_value := 1 / 10\<rparr>)
                   0 model;
                 model2 = (if grade = 0 then fix_b model1 else model1)
             in bayes_result (u_emcee U) (u_get_log_like U) model2 observation))))"

section \<open>The class VirtualObservatoryCatalog\<close>

text \<open>
  The attributes \<open>_vo_dataframe\<close> and \<open>_last_query_results\<close> (\<open>None\<close> after
  \<open>__init__\<close>), over any type of data frames.
\<close>

record 'df VirtualObservatoryCatalog =
  vo_dataframe :: 'df
  last_query_results :: "'df option"

text \<open>
  The methods a subclass overrides (in the class itself \<open>_source_is_valid\<close> and
  \<open>apply_format\<close> raise NotImplementedError), and what \<open>query_sources\<close> calls
  outside this file: \<open>DataFrame.query\<close>, and the astropy table built from the
  result with its name column.
\<close>

record ('df, 'tbl, 'out) vo_methods =
  source_is_valid :: "'df VirtualObservatoryCatalog \<Rightarrow> string \<Rightarrow> exn + bool"
  apply_format :: "'df VirtualObservatoryCatalog \<Rightarrow> 'tbl \<Rightarrow> exn + 'out"
  dataframe_query :: "'df \<Rightarrow> string \<Rightarrow> exn + 'df"
  table_with_names :: "'df \<Rightarrow> 'tbl"

text \<open>The loop that collects \<open>valid_sources\<close>.\<close>

fun valid_sources ::
  "('df, 'tbl, 'out) vo_methods \<Rightarrow> 'df VirtualObservatoryCatalog \<Rightarrow> string list
     \<Rightarrow> exn + string list" where
  "valid_sources M self [] = Inr []"
| "valid_sources M self (source # sources) =
     (case source_is_valid M self source of
        Inl e \<Rightarrow> Inl e
      | Inr ok \<Rightarrow>
          (case valid_sources M self sources of
             Inl e \<Rightarrow> Inl e
           | Inr rest \<Rightarrow> Inr (if ok then source # rest else rest)))"

text \<open>\<open>sep.join(xs)\<close>.\<close>

fun str_join :: "string \<Rightarrow> string list \<Rightarrow> string" where
  "str_join sep [] = []"
| "str_join sep [s] = s"
| "str_join sep (s # t # ss) = s @ sep @ str_join sep (t # ss)"

text \<open>
  \<open>VirtualObservatoryCatalog.query_sources(*sources)\<close>. In the else branch the
  source builds a RuntimeError and does not raise it: the method falls off its end and
  returns \<open>None\<close>.
\<close>

definition query_sources ::
  "('df, 'tbl, 'out) vo_methods \<Rightarrow> 'df VirtualObservatoryCatalog \<Rightarrow> string list
     \<Rightarrow> (exn + 'out option) \<times> 'df VirtualObservatoryCatalog" where
  "query_sources M self sources =
     (case valid_sources M self sources of
        Inl e \<Rightarrow> (Inl e, self)
      | Inr valid \<Rightarrow>
          if valid \<noteq> []
          then
            (let query_string =
                   str_join '' | ''
                     (map (\<lambda>x. ''(index == '' @ [CHR 0x22] @ x @ [CHR 0x22] @ '')'') valid)
             in case dataframe_query M (vo_dataframe self) query_string of
                  Inl e \<Rightarrow> (Inl e, self)
                | Inr query_results \<Rightarrow>
                    (let table = table_with_names M query_results
                     in case apply_format M self table of
                          Inl e \<Rightarrow> (Inl e, self)
                        | Inr out \<Rightarrow>
                            (Inr (Some out),
                             self\<lparr>last_query_results := Some query_results\<rparr>)))
          else (Inr None, self))"

text \<open>A subclass for concrete runs: no name is valid, the data frame is a list of names.\<close>

definition no_valid_names :: "(string list, string list, string list) vo_methods" where
  "no_valid_names =
     \<lparr>source_is_valid = (\<lambda>self source. Inr False),
      apply_format = (\<lambda>self table. Inr table),
      dataframe_query = (\<lambda>df q. Inr df),
      table_with_names = (\<lambda>df. df)\<rparr>"

section \<open>The constructor and evaluation\<close>

lemma Polynomial_init_True:
  "Polynomial_init cs True =
     Polynomial cs (int (length cs) - 1) (map nat [1..int (length cs)])
       (np_zeros (int (length cs)) (int (length cs))) None"
  by (simp add: Polynomial_init.simps [of cs True] Let_def)

lemma Polynomial_init_False:
  "Polynomial_init cs False =
     Polynomial cs (int (length cs) - 1) (map nat [1..int (length cs)])
       (np_zeros (int (length cs)) (int (length cs)))
       (Some (Polynomial_init (integral_coeff cs (int (length cs) - 1)) True))"
  by (simp add: Polynomial_init.simps [of cs False] Let_def)

lemma coefficients_init: "coefficients (Polynomial_init cs b) = cs"
  by (cases b) (simp_all add: Polynomial_init_True Polynomial_init_False)

lemma foldl_rev_horner:
  "foldl (\<lambda>result coefficient. result * x + coefficient) 0 (rev cs) = horner cs x"
  by (induction cs) (simp_all add: mult.commute)

lemma call_horner: "call p x = horner (coefficients p) x"
  by (simp add: call_def foldl_rev_horner)

text \<open>
  C3. Evaluating the polynomial built from \<open>c\<close> at \<open>x\<close> is direct Horner evaluation of
  \<open>c\<close> at \<open>x\<close>, whether or not the object is marked as an integral; and
  \<open>Polynomial([1,2,3])\<close> evaluated at 2 is 17.
\<close>

theorem call_is_horner:
  "call (Polynomial_init c b) x = horner c x \<and> call (Polynomial_init [1, 2, 3] False) 2 = 17"
  by (simp add: call_horner coefficients_init)

section \<open>The integral\<close>

lemma horner_sum_nth: "horner cs x = (\<Sum>i<length cs. cs ! i * x ^ i)"
proof (induction cs)
  case Nil
  then show ?case by simp
next
  case (Cons c cs)
  have "(\<Sum>i<Suc (length cs). (c # cs) ! i * x ^ i) = c + (\<Sum>i<length cs. cs ! i * x ^ Suc i)"
    by (simp add: sum.lessThan_Suc_shift del: sum.lessThan_Suc)
  also have "\<dots> = c + x * (\<Sum>i<length cs. cs ! i * x ^ i)"
    by (simp add: sum_distrib_left mult_ac)
  finally show ?case using Cons by simp
qed

lemma length_integral_coeff: "length (integral_coeff cs (int (length cs) - 1)) = Suc (length cs)"
  by (simp add: integral_coeff_def)

lemma nth_integral_coeff:
  "i < length cs \<Longrightarrow> integral_coeff cs (int (length cs) - 1) ! Suc i = cs ! i / real (Suc i)"
  by (simp add: integral_coeff_def add.commute)

lemma nth_integral_coeff_0: "integral_coeff cs deg ! 0 = 0"
  by (simp add: integral_coeff_def)

lemma horner_integral_coeff:
  "horner (integral_coeff cs (int (length cs) - 1)) x = antiderivative cs x"
proof -
  let ?ic = "integral_coeff cs (int (length cs) - 1)"
  have "horner ?ic x = (\<Sum>i<Suc (length cs). ?ic ! i * x ^ i)"
    by (simp add: horner_sum_nth length_integral_coeff)
  also have "\<dots> = (\<Sum>i<length cs. ?ic ! Suc i * x ^ Suc i)"
    by (simp add: sum.lessThan_Suc_shift nth_integral_coeff_0 del: sum.lessThan_Suc)
  also have "\<dots> = (\<Sum>i<length cs. cs ! i / real (Suc i) * x ^ Suc i)"
    by (rule sum.cong) (simp_all add: nth_integral_coeff)
  also have "\<dots> = (\<Sum>i = 1..length cs. cs ! (i - 1) / real i * x ^ i)"
    by (rule sum.reindex_bij_witness [where i = "\<lambda>i. i - 1" and j = Suc]) auto
  finally show ?thesis by (simp add: antiderivative_def)
qed

text \<open>
  C2. For a polynomial constructed from the coefficients \<open>c\<close> (not marked as an
  integral), \<open>integral(xmin, xmax)\<close> returns \<open>F(xmax) - F(xmin)\<close>, where
  \<open>F\<close> has constant term 0 and coefficient \<open>c[i-1] / i\<close> at each power
  \<open>i\<close> from 1 to \<open>len(c)\<close>.
\<close>

theorem integral_is_antiderivative_difference:
  "integral (Polynomial_init c False) xmin xmax = Inr (antiderivative c xmax - antiderivative c xmin)"
  by (simp add: integral_def Polynomial_init_False call_horner coefficients_init
      horner_integral_coeff)

text \<open>
  C9. A polynomial constructed with \<open>is_integral=True\<close> has no integral polynomial
  of its own, and the integral polynomial of one constructed with \<open>is_integral=False\<close>
  has none either: the construction is exactly one level deep. That the constructor
  returns on every input is the termination proof of \<open>Polynomial_init\<close>.
\<close>

theorem one_level_deep:
  "integral_polynomial (Polynomial_init c True) = None \<and>
   nesting_depth (Polynomial_init c True) = 0 \<and>
   (\<exists>q. integral_polynomial (Polynomial_init c False) = Some q \<and> integral_polynomial q = None) \<and>
   nesting_depth (Polynomial_init c False) = 1"
  by (simp add: Polynomial_init_True Polynomial_init_False)

section \<open>The error of the integral\<close>

lemma i_plus_1_init: "i_plus_1 (Polynomial_init cs b) = map nat [1..int (length cs)]"
  by (cases b) (simp_all add: Polynomial_init_True Polynomial_init_False)

lemma eval_basis_init:
  "eval_basis (set_covariace_matrix (Polynomial_init cs b) S) x =
     map (\<lambda>i. (1 / real (i + 1)) * x ^ (i + 1)) [0..<length cs]"
proof (rule nth_equalityI)
  show "length (eval_basis (set_covariace_matrix (Polynomial_init cs b) S) x) =
        length (map (\<lambda>i. (1 / real (i + 1)) * x ^ (i + 1)) [0..<length cs])"
    by (simp add: eval_basis_def set_covariace_matrix_def i_plus_1_init)
next
  fix i
  assume "i < length (eval_basis (set_covariace_matrix (Polynomial_init cs b) S) x)"
  then have i: "i < length cs"
    by (simp add: eval_basis_def set_covariace_matrix_def i_plus_1_init)
  then have "nat ([1..int (length cs)] ! i) = i + 1"
    by simp
  then show "eval_basis (set_covariace_matrix (Polynomial_init cs b) S) x ! i =
      map (\<lambda>i. (1 / real (i + 1)) * x ^ (i + 1)) [0..<length cs] ! i"
    using i by (simp add: eval_basis_def set_covariace_matrix_def i_plus_1_init add.commute)
qed

lemma basis_difference:
  "map2 (-) (eval_basis (set_covariace_matrix (Polynomial_init cs b) S) xmax)
            (eval_basis (set_covariace_matrix (Polynomial_init cs b) S) xmin) =
     map (basis_c xmin xmax) [0..<length cs]"
  by (rule nth_equalityI) (simp_all add: eval_basis_init basis_c_def diff_divide_distrib)

lemma sum_list_map2_nth:
  "length xs = length ys \<Longrightarrow> sum_list (map2 f xs ys) = (\<Sum>i<length xs. f (xs ! i) (ys ! i))"
  by (simp add: sum_list_sum_nth atLeast0LessThan)

lemma ncols_square:
  assumes "length S = n" and "\<forall>row\<in>set S. length row = n"
  shows "ncols S = n"
proof (cases S)
  case Nil
  then show ?thesis using assms by (simp add: ncols_def)
next
  case (Cons row rows)
  then show ?thesis using assms by (simp add: ncols_def)
qed

lemma is_matrix_square:
  assumes "length S = n" and "\<forall>row\<in>set S. length row = n"
  shows "is_matrix S"
  using assms ncols_square [OF assms] by (simp add: is_matrix_def list_all_iff)

text \<open>
  C1. For a polynomial with the coefficients \<open>cs\<close> and a covariance matrix
  \<open>S\<close> of \<open>len(cs)\<close> rows and columns, \<open>integral_error(xmin, xmax)\<close> returns
  the square root of \<open>c\<^sup>T S c\<close>, where
  \<open>c_i = (xmax^(i+1) - xmin^(i+1)) / (i+1)\<close> for \<open>i\<close> from 0 to the degree.
  The square root is numpy's: NaN when the quadratic form is negative.
\<close>

theorem integral_error_formula:
  assumes "length S = length cs" and "\<forall>row\<in>set S. length row = length cs"
  shows "integral_error (set_covariace_matrix (Polynomial_init cs b) S) xmin xmax =
     Inr (np_sqrt (quadratic_form (length cs) (basis_c xmin xmax) S))"
proof -
  let ?n = "length cs"
  let ?c = "map (basis_c xmin xmax) [0..<?n]"
  let ?tmp = "map (\<lambda>j. sum_list (map2 (\<lambda>ci row. ci * row ! j) ?c S)) [0..<?n]"
  have cov: "cov_matrix (set_covariace_matrix (Polynomial_init cs b) S) = S"
    by (simp add: set_covariace_matrix_def)
  have vm: "dot_vec_mat ?c S = Inr ?tmp"
    using assms ncols_square [OF assms] is_matrix_square [OF assms]
    by (simp add: dot_vec_mat_def)
  have tmp_nth: "?tmp ! j = (\<Sum>i<?n. basis_c xmin xmax i * S ! i ! j)" if "j < ?n" for j
    using that assms(1) by (simp add: sum_list_map2_nth)
  have "sum_list (map2 (*) ?tmp ?c) = (\<Sum>j<?n. ?tmp ! j * ?c ! j)"
    using sum_list_map2_nth [of ?tmp ?c "(*)"] by simp
  also have "\<dots> = (\<Sum>j<?n. (\<Sum>i<?n. basis_c xmin xmax i * S ! i ! j) * basis_c xmin xmax j)"
  proof (rule sum.cong)
    fix j
    assume "j \<in> {..<?n}"
    then have j: "j < ?n" by simp
    show "?tmp ! j * ?c ! j = (\<Sum>i<?n. basis_c xmin xmax i * S ! i ! j) * basis_c xmin xmax j"
      using tmp_nth [OF j] j by simp
  qed simp
  also have "\<dots> = (\<Sum>j<?n. \<Sum>i<?n. basis_c xmin xmax i * S ! i ! j * basis_c xmin xmax j)"
    by (simp add: sum_distrib_right)
  also have "\<dots> = quadratic_form ?n (basis_c xmin xmax) S"
    unfolding quadratic_form_def by (rule sum.swap)
  finally have vv: "dot_vec_vec ?tmp ?c = Inr (quadratic_form ?n (basis_c xmin xmax) S)"
    by (simp add: dot_vec_vec_def)
  show ?thesis
    by (simp add: integral_error_def basis_difference cov vm vv del: map_map)
qed

theorem integral_error_formula_witness:
  "integral_error (set_covariace_matrix (Polynomial_init [1, 2] False) [[5, 1], [1, 9]]) 0 2 =
     Inr (Num 8)"
proof -
  have "quadratic_form (length [1, 2 :: real]) (basis_c 0 2) [[5, 1], [1, 9]] = 64"
    by (simp add: quadratic_form_def basis_c_def lessThan_Suc)
  moreover have "np_sqrt 64 = Num 8"
    using real_sqrt_abs [of 8] by (simp add: np_sqrt_def)
  ultimately show ?thesis
    using integral_error_formula [of "[[5, 1], [1, 9]]" "[1, 2]" False 0 2] by simp
qed

section \<open>Assigning the coefficients\<close>

lemma list_comprehension_total:
  "(\<And>x. x \<in> set xs \<Longrightarrow> f x = Inr (g x)) \<Longrightarrow> list_comprehension f xs = Inr (map g xs)"
  by (induction xs) simp_all

text \<open>
  A vector of the length the polynomial was built with: the integral polynomial becomes
  that of the new coefficients.
\<close>

lemma set_coefficient_same_length:
  assumes "degree p = int (length val) - 1"
  shows "set_coefficient p val =
     (Inr (), Polynomial val (degree p) (i_plus_1 p) (cov_matrix p)
                (integral_polynomial (Polynomial_init val False)))"
proof -
  have "list_comprehension
          (\<lambda>i. case py_getitem val (i - 1) of Inl e \<Rightarrow> Inl e | Inr v \<Rightarrow> Inr (v / real_of_int i))
          [1..int (length val)]
        = Inr (map (\<lambda>i. val ! nat (i - 1) / real_of_int i) [1..int (length val)])"
    by (rule list_comprehension_total) (simp add: py_getitem_def)
  then show ?thesis
    using assms by (simp add: set_coefficient_def Polynomial_init_False integral_coeff_def)
qed

text \<open>
  C4. The setter at vectors of another length, on \<open>Polynomial([1, 2])\<close>. Assigning
  \<open>[4, 6, 9]\<close> leaves \<open>_degree = 1\<close> and gives the integral coefficients
  \<open>[0, 4, 3]\<close>, where the antiderivative of \<open>[4, 6, 9]\<close> has \<open>[0, 4, 3, 3]\<close>.
  Assigning \<open>[5]\<close> raises IndexError after \<open>_coefficients\<close> was replaced, and
  the integral polynomial is still that of \<open>[1, 2]\<close>.
\<close>

theorem set_coefficient_stale_degree:
  "set_coefficient (Polynomial_init [1, 2] False) [4, 6, 9] =
     (Inr (), Polynomial [4, 6, 9] 1 [1, 2] [[0, 0], [0, 0]]
                (Some (Polynomial [0, 4, 3] 2 [1, 2, 3] [[0, 0, 0], [0, 0, 0], [0, 0, 0]] None)))
   \<and> integral_polynomial (Polynomial_init [4, 6, 9] False) =
       Some (Polynomial [0, 4, 3, 3] 3 [1, 2, 3, 4]
              [[0, 0, 0, 0], [0, 0, 0, 0], [0, 0, 0, 0], [0, 0, 0, 0]] None)
   \<and> set_coefficient (Polynomial_init [1, 2] False) [5] =
     (Inl IndexError, Polynomial [5] 1 [1, 2] [[0, 0], [0, 0]]
                (Some (Polynomial [0, 1, 1] 2 [1, 2, 3] [[0, 0, 0], [0, 0, 0], [0, 0, 0]] None)))"
  by (simp add: set_coefficient_def Polynomial_init_False Polynomial_init_True integral_coeff_def
      py_getitem_def np_zeros_def upto.simps numeral_eq_Suc)

section \<open>Dropping the NaN entries\<close>

lemma mask_index_self: "mask_index y (map Not (map isnan y)) = Inr (filter (\<lambda>v. \<not> isnan v) y)"
proof -
  have "map fst (filter snd (zip y (map Not (map isnan y)))) = filter (\<lambda>v. \<not> isnan v) y"
    by (induction y) simp_all
  then show ?thesis by (simp add: mask_index_def)
qed

lemma mask_index_same_length:
  "length a = length y \<Longrightarrow> \<exists>a1. mask_index a (map Not (map isnan y)) = Inr a1"
  by (simp add: mask_index_def)

lemma polyfit_after_mask:
  assumes "length x = length y" and "length exposure = length y"
  shows "\<exists>x1 exposure1. polyfit C x y grade exposure bayes =
           polyfit_masked C x1 (filter (\<lambda>v. \<not> isnan v) y) grade exposure1 bayes"
proof -
  obtain x1 where x1: "mask_index x (map Not (map isnan y)) = Inr x1"
    using mask_index_same_length [OF assms(1)] by blast
  obtain e1 where e1: "mask_index exposure (map Not (map isnan y)) = Inr e1"
    using mask_index_same_length [OF assms(2)] by blast
  have "polyfit C x y grade exposure bayes =
        polyfit_masked C x1 (filter (\<lambda>v. \<not> isnan v) y) grade e1 bayes"
    unfolding polyfit_def Let_def by (simp only: mask_index_self x1 e1 sum.case)
  then show ?thesis by blast
qed

text \<open>
  Masking an array with the NaN mask of \<open>y\<close> gives the same as masking the array
  without the entry \<open>i\<close> with the NaN mask of \<open>y\<close> without the entry \<open>i\<close>, when
  \<open>y[i]\<close> is NaN; when the lengths differ both raise IndexError.
\<close>

lemma mask_index_delete:
  assumes "i < length a" and "i < length y" and "y ! i = NaN"
  shows "mask_index (np_delete a i) (map Not (map isnan (np_delete y i))) =
         mask_index a (map Not (map isnan y))"
proof (cases "length y = length a")
  case False
  then show ?thesis using assms by (auto simp: mask_index_def np_delete_def)
next
  case True
  have a: "a = take i a @ a ! i # drop (Suc i) a"
    using assms(1) by (simp add: id_take_nth_drop [symmetric])
  have y: "y = take i y @ NaN # drop (Suc i) y"
    using assms(2,3) id_take_nth_drop [of i y] by simp
  have "map fst (filter snd (zip a (map Not (map isnan y)))) =
        map fst (filter snd (zip (take i a @ a ! i # drop (Suc i) a)
            (map Not (map isnan (take i y @ NaN # drop (Suc i) y)))))"
    using a y by simp
  also have "\<dots> = map fst (filter snd (zip (np_delete a i) (map Not (map isnan (np_delete y i)))))"
    using True assms by (simp add: np_delete_def isnan_def min_def)
  finally show ?thesis using True assms by (simp add: mask_index_def np_delete_def)
qed

text \<open>
  C8. When \<open>y\<close> holds a NaN at the index \<open>i\<close>, \<open>polyfit\<close> returns what it returns
  on the arrays \<open>x\<close>, \<open>y\<close> and \<open>exposure\<close> with the entry \<open>i\<close> removed in
  advance, for every grade and in both modes.
\<close>

theorem polyfit_nan_removed:
  assumes "i < length x" and "i < length y" and "i < length exposure" and "y ! i = NaN"
  shows "polyfit C x y grade exposure bayes =
         polyfit C (np_delete x i) (np_delete y i) grade (np_delete exposure i) bayes"
  unfolding polyfit_def Let_def
  using mask_index_delete [OF assms(1) assms(2) assms(4)]
        mask_index_delete [OF assms(2) assms(2) assms(4)]
        mask_index_delete [OF assms(3) assms(2) assms(4)]
  by (simp only:)

theorem polyfit_nan_removed_witness:
  "polyfit converging_optimizer [Num 1, Num 2] [Num 3, NaN] 1 [Num 1, Num 1] False =
   polyfit converging_optimizer [Num 1] [Num 3] 1 [Num 1] False"
  using polyfit_nan_removed [of 1 "[Num 1, Num 2]" "[Num 3, NaN]" "[Num 1, Num 1]"
      converging_optimizer 1 False]
  by (simp add: np_delete_def)

section \<open>No counts, no events\<close>

text \<open>
  C6. When no entry of \<open>y\<close> that is left after the NaN entries were dropped is
  positive, \<open>polyfit\<close> returns the polynomial with \<open>grade + 1\<close> coefficients 0 and
  the likelihood 0, and no optimizer or sampler run was started. The arrays have one
  length, as the bins of one series do.
\<close>

theorem polyfit_no_counts:
  assumes "length x = length y" and "length exposure = length y"
    and "filter gt0 (filter (\<lambda>v. \<not> isnan v) y) = []"
  shows "polyfit C x y grade exposure bayes =
           (Inr (Polynomial_init (replicate (nat (grade + 1)) 0) False, 0), 0)
         \<and> coefficients (Polynomial_init (replicate (nat (grade + 1)) 0) False) =
             replicate (nat (grade + 1)) 0"
proof -
  obtain x1 e1 where "polyfit C x y grade exposure bayes =
      polyfit_masked C x1 (filter (\<lambda>v. \<not> isnan v) y) grade e1 bayes"
    using polyfit_after_mask [OF assms(1,2)] by blast
  then show ?thesis
    using assms(3) by (simp add: polyfit_masked_def coefficients_init)
qed

theorem polyfit_no_counts_witness:
  "polyfit failing_optimizer [Num 1, Num 2, Num 3] [Num 0, NaN, Num 0] 2
      [Num 1, Num 1, Num 1] False =
     (Inr (Polynomial_init [0, 0, 0] False, 0), 0)"
proof -
  have "filter gt0 (filter (\<lambda>v. \<not> isnan v) [Num 0, NaN, Num 0]) = []"
    by (simp add: gt0_def isnan_def)
  then show ?thesis
    using polyfit_no_counts [of "[Num 1, Num 2, Num 3]" "[Num 0, NaN, Num 0]"
        "[Num 1, Num 1, Num 1]" failing_optimizer 2 False]
    by (simp add: numeral_eq_Suc)
qed

text \<open>
  C7. With an empty event list \<open>unbinned_polyfit\<close> returns the polynomial with
  \<open>grade + 1\<close> coefficients 0 and the likelihood 0, whatever the grade, the window,
  the exposure and the mode are, and no optimizer or sampler run was started.
\<close>

theorem unbinned_polyfit_no_events:
  "unbinned_polyfit U [] grade t_start t_stop exposure bayes =
     (Inr (Polynomial_init (replicate (nat (grade + 1)) 0) False, 0), 0)
   \<and> coefficients (Polynomial_init (replicate (nat (grade + 1)) 0) False) =
       replicate (nat (grade + 1)) 0"
  by (simp add: unbinned_polyfit_def coefficients_init)

section \<open>The retry of the fit\<close>

lemma fit_calls_jl_fit: "fit_calls (snd (jl_fit minimizer jl)) = Suc (fit_calls jl)"
  by (simp add: jl_fit_def split: fit_outcome.splits)

text \<open>One call of \<open>jl.fit\<close> when the first returns, two when it raises: one retry.\<close>

lemma fit_retry_accept_calls:
  "fit_calls (fit_retry_accept minimizer jl) =
     (case fst (jl_fit minimizer jl) of
        Inr u \<Rightarrow> fit_calls jl + 1
      | Inl e \<Rightarrow> fit_calls jl + 2)"
proof (cases "jl_fit minimizer jl")
  case (Pair r jl1)
  have c1: "fit_calls jl1 = Suc (fit_calls jl)"
    using fit_calls_jl_fit [of minimizer jl] Pair by simp
  show ?thesis
  proof (cases r)
    case (Inr u)
    then show ?thesis using Pair c1 by (simp add: fit_retry_accept_def)
  next
    case (Inl e)
    obtain r2 jl2 where p2: "jl_fit minimizer jl1 = (r2, jl2)"
      by (cases "jl_fit minimizer jl1")
    have "fit_calls jl2 = Suc (fit_calls jl1)"
      using fit_calls_jl_fit [of minimizer jl1] p2 by simp
    then show ?thesis
      using Pair Inl c1 p2 by (cases r2) (simp_all add: fit_retry_accept_def)
  qed
qed

lemma fit_retry_accept_all_fail:
  assumes "\<And>model data. \<exists>e left. minimizer model data = Raised e left"
  shows "jl_results (fit_retry_accept minimizer jl) = jl_results jl
       \<and> fit_calls (fit_retry_accept minimizer jl) = fit_calls jl + 2"
proof -
  obtain e left where r1: "minimizer (jl_model jl) (jl_data jl) = Raised e left"
    using assms by blast
  let ?jl1 = "jl\<lparr>jl_model := set_free_values left (jl_model jl),
                   fit_calls := Suc (fit_calls jl)\<rparr>"
  obtain e' left' where r2: "minimizer (jl_model ?jl1) (jl_data ?jl1) = Raised e' left'"
    using assms by blast
  show ?thesis
    using r1 r2 by (simp add: fit_retry_accept_def jl_fit_def)
qed

lemma fit_retry_accept_converges:
  assumes "\<And>model data. \<exists>best cov. minimizer model data = Converged best cov"
  shows "\<exists>cov. jl_results (fit_retry_accept minimizer jl) = Some cov
       \<and> fit_calls (fit_retry_accept minimizer jl) = fit_calls jl + 1"
proof -
  obtain best cov where "minimizer (jl_model jl) (jl_data jl) = Converged best cov"
    using assms by blast
  then show ?thesis by (simp add: fit_retry_accept_def jl_fit_def)
qed

lemma mle_result_converged:
  assumes "\<And>model data. \<exists>best cov. minimizer model data = Converged best cov"
  shows "\<exists>p l. mle_result g (fit_retry_accept minimizer (JointLikelihood_init model data)) =
           (Inr (p, l), 1)"
proof -
  obtain cov where
    "jl_results (fit_retry_accept minimizer (JointLikelihood_init model data)) = Some cov"
    "fit_calls (fit_retry_accept minimizer (JointLikelihood_init model data)) =
       fit_calls (JointLikelihood_init model data) + 1"
    using fit_retry_accept_converges [of minimizer "JointLikelihood_init model data"] assms
    by blast
  then show ?thesis by (simp add: mle_result_def JointLikelihood_init_def)
qed

text \<open>
  In MLE mode on arrays of one length with a positive count and a grade from 0 to 4:
  when the optimizer converges, \<open>polyfit\<close> returns a polynomial after one call of
  \<open>jl.fit\<close>; when the optimizer raises on every call, \<open>jl.fit\<close> is called twice,
  neither exception reaches the caller, and reading \<open>jl.results.covariance_matrix\<close>
  raises AttributeError.
\<close>

lemma polyfit_first_fit_converges:
  assumes "length x = length y" and "length exposure = length y"
    and "filter gt0 (filter (\<lambda>v. \<not> isnan v) y) \<noteq> []"
    and "0 \<le> grade" and "grade \<le> 4"
    and "\<And>model xy. \<exists>best cov. minuit C model xy = Converged best cov"
  shows "\<exists>p l. polyfit C x y grade exposure False = (Inr (p, l), 1)"
proof -
  obtain x1 e1 where eq: "polyfit C x y grade exposure False =
      polyfit_masked C x1 (filter (\<lambda>v. \<not> isnan v) y) grade e1 False"
    using polyfit_after_mask [OF assms(1,2)] by blast
  obtain shape where shape: "py_getitem grade_model_lookup grade = Inr shape"
    using assms(4,5) by (simp add: py_getitem_def grade_model_lookup_def)
  have "\<exists>p l. polyfit_masked C x1 (filter (\<lambda>v. \<not> isnan v) y) grade e1 False = (Inr (p, l), 1)"
    unfolding polyfit_masked_def Let_def
    using assms(3) shape mle_result_converged [of "minuit C", OF assms(6)]
    by (simp only: length_0_conv if_False sum.case not_False_eq_True if_True)
  then show ?thesis by (simp only: eq)
qed

lemma polyfit_all_fits_fail:
  assumes "length x = length y" and "length exposure = length y"
    and "filter gt0 (filter (\<lambda>v. \<not> isnan v) y) \<noteq> []"
    and "0 \<le> grade" and "grade \<le> 4"
    and "\<And>model xy. \<exists>e left. minuit C model xy = Raised e left"
  shows "polyfit C x y grade exposure False = (Inl AttributeError, 2)"
proof -
  obtain x1 e1 where "polyfit C x y grade exposure False =
      polyfit_masked C x1 (filter (\<lambda>v. \<not> isnan v) y) grade e1 False"
    using polyfit_after_mask [OF assms(1,2)] by blast
  moreover obtain shape where "py_getitem grade_model_lookup grade = Inr shape"
    using assms(4,5) by (simp add: py_getitem_def grade_model_lookup_def)
  ultimately show ?thesis
    using assms(3) fit_retry_accept_all_fail [of "minuit C", OF assms(6)]
    by (simp add: polyfit_masked_def Let_def mle_result_def JointLikelihood_init_def)
qed

text \<open>
  C5. One bin with a count of 1, grade 1, MLE mode, and an optimizer that raises
  FitFailed on both calls: \<open>jl.fit\<close> is called twice, both exceptions are caught, and
  then \<open>polyfit\<close> raises AttributeError at \<open>jl.results.covariance_matrix\<close> and returns
  no polynomial.
\<close>

theorem polyfit_fails_twice:
  "polyfit failing_optimizer [Num 0] [Num 1] 1 [Num 1] False = (Inl AttributeError, 2)"
  by (simp add: polyfit_def polyfit_masked_def mask_index_def isnan_def gt0_def py_getitem_def
      grade_model_lookup_def shape_parameters_def new_parameter_def jl_fit_def
      fit_retry_accept_def JointLikelihood_init_def failing_optimizer_def mle_result_def
      free_parameters_def)

section \<open>Querying the catalog without a valid name\<close>

lemma valid_sources_none:
  "\<forall>s\<in>set sources. source_is_valid M self s = Inr False \<Longrightarrow> valid_sources M self sources = Inr []"
  by (induction sources) simp_all

text \<open>
  C10. When the validity check returns false for every given name, \<open>query_sources\<close>
  returns \<open>None\<close>, raises nothing, and leaves the catalog, with its last query
  results, as it was.
\<close>

theorem query_sources_no_valid_source:
  assumes "\<forall>s\<in>set sources. source_is_valid M self s = Inr False"
  shows "query_sources M self sources = (Inr None, self)"
  using valid_sources_none [OF assms] by (simp add: query_sources_def)

theorem query_sources_no_valid_source_witness:
  "query_sources no_valid_names
     \<lparr>vo_dataframe = [''Crab''], last_query_results = Some [''Vela'']\<rparr>
     [''Geminga'', ''3C 273''] =
   (Inr None, \<lparr>vo_dataframe = [''Crab''], last_query_results = Some [''Vela'']\<rparr>)"
proof -
  have "\<forall>s\<in>set [''Geminga'', ''3C 273''].
          source_is_valid no_valid_names
            \<lparr>vo_dataframe = [''Crab''], last_query_results = Some [''Vela'']\<rparr> s = Inr False"
    by (simp add: no_valid_names_def)
  then show ?thesis
    by (rule query_sources_no_valid_source)
qed

end
